theory Spec2Isabelle
  imports Main "HOL-Library.Word"
begin

section \<open>Data model of \<open>api/session.go\<close>\<close>

text \<open>
  A \<open>float64\<close> is carried as its IEEE-754 bit pattern: the session layer only copies
  coordinates from one structure into another and hands them to the geometry library.
  A \<open>[]byte\<close> is a list of bytes, \<open>nil\<close> being the empty list.
\<close>

type_synonym float64 = "64 word"
type_synonym bytes = "8 word list"

text \<open>\<open>type Location struct { Lon, Lat, Alt float64 }\<close>\<close>

record Location =
  Lon :: float64
  Lat :: float64
  Alt :: float64

text \<open>
  Values of Go's \<open>error\<close> interface; \<open>nil\<close> is \<open>None\<close> of \<open>error option\<close>.
  \<open>RequestError\<close> is the package's own \<open>&RequestError{}\<close>, \<open>Errorf\<close> a value made by
  \<open>fmt.Errorf\<close>, and \<open>ExternalError\<close> any error value made by a collaborator (auth
  provider, transport, status classifier), told apart by its text.
\<close>

datatype error = RequestError | Errorf string | ExternalError string

text \<open>Run-time panics of the session code itself.\<close>

datatype panic = NilPointerDereference | IndexOutOfRange

datatype 'a outcome = Return 'a | Panic panic

text \<open>The members of \<open>protos.RequestType\<close> that the session names.\<close>

datatype RequestType =
  GET_PLAYER | GET_HATCHED_EGGS | GET_INVENTORY | CHECK_AWARDED_BADGES
  | DOWNLOAD_SETTINGS | GET_MAP_OBJECTS

text \<open>\<open>protos.Request\<close>: a sub-request; an omitted \<open>RequestMessage\<close> is \<open>nil\<close>.\<close>

record Request =
  RequestType :: RequestType
  RequestMessage :: bytes

text \<open>
  The request messages the session marshals. \<open>GetMapObjectsMessage\<close> carries, in this
  order, \<open>CellId\<close>, \<open>SinceTimestampMs\<close>, \<open>Longitude\<close> and \<open>Latitude\<close>;
  \<open>GetInventoryMessage\<close> carries \<open>LastTimestampMs\<close>; \<open>DownloadSettingsMessage\<close>
  carries \<open>Hash\<close>.
\<close>

datatype Message =
  GetMapObjectsMessage "64 word list" "64 word list" float64 float64
  | GetInventoryMessage "64 word"
  | DownloadSettingsMessage string

text \<open>\<open>protos.RequestEnvelope_AuthInfo_JWT\<close> and \<open>protos.RequestEnvelope_AuthInfo\<close>\<close>

record AuthInfo_JWT =
  Contents :: string
  Unknown2 :: "32 word"

record AuthInfo =
  Provider :: string
  Token :: AuthInfo_JWT

text \<open>
  \<open>protos.RequestEnvelope\<close>, with the fields that \<open>Call\<close> sets (every other field of
  the message keeps its zero value).
\<close>

record RequestEnvelope =
  RequestId :: "64 word"
  StatusCode :: "32 word"
  Unknown12 :: "64 word"
  Longitude :: float64
  Latitude :: float64
  Altitude :: float64
  AuthInfo :: AuthInfo
  Requests :: "Request list"

text \<open>
  \<open>protos.ResponseEnvelope\<close>, with the fields the session reads. Its status code is
  named \<open>StatusCode\<close> in the source as well; here it is \<open>RespStatusCode\<close> because a
  field name denotes one record only.
\<close>

record ResponseEnvelope =
  RespStatusCode :: "32 word"
  ApiUrl :: string
  Returns :: "bytes list"

subsection \<open>Collaborators\<close>

text \<open>
  \<open>'w\<close> is the state of everything outside the session: the auth provider's internals,
  the network and the clock. A method of a collaborator takes that state and returns its
  results with the new state.

  \<open>auth.Provider\<close> is an interface; a value of it is the record of its methods.
\<close>

record 'w Provider =
  Login :: "'w \<Rightarrow> (string \<times> error option) \<times> 'w"
  GetProviderString :: "'w \<Rightarrow> string \<times> 'w"
  GetAccessToken :: "'w \<Rightarrow> string \<times> 'w"

text \<open>
  \<open>rpc.Client\<close>, the transport. \<open>Request url envelope\<close> is one blocking round trip; it
  returns a \<open>*protos.ResponseEnvelope\<close> (\<open>None\<close> is \<open>nil\<close>) and an \<open>error\<close>.
\<close>

record 'w Client =
  Request :: "string \<Rightarrow> RequestEnvelope \<Rightarrow> 'w \<Rightarrow> (ResponseEnvelope option \<times> error option) \<times> 'w"

text \<open>
  \<open>type Session struct\<close>. \<open>location\<close> is a pointer and \<open>provider\<close> an interface value:
  \<open>None\<close> is \<open>nil\<close> for both.
\<close>

record 'w Session =
  location :: "Location option"
  url :: string
  rpc :: "'w Client"
  provider :: "'w Provider option"
  debug :: bool

text \<open>
  The functions the session imports from other packages, taken as parameters:
  \<^item> from \<open>github.com/golang/geo/s2\<close>: \<open>LatLngFromDegrees lat lng\<close>, \<open>CellIDFromLatLng\<close>,
    \<open>CellID.Parent level\<close>, and \<open>CellID.EdgeNeighbors\<close>, whose result type is the array
    \<open>[4]CellID\<close>, here a 4-tuple;
  \<^item> from \<open>github.com/golang/protobuf/proto\<close>: \<open>Marshal\<close>, which returns the bytes and an
    error, and \<open>Unmarshal buf pb\<close>, which fills the message \<open>pb\<close> and returns an error
    (the pair is the message after the call and that error);
  \<^item> the empty response messages \<open>&protos.GetMapObjectsResponse{}\<close>,
    \<open>&protos.GetPlayerResponse{}\<close> and \<open>&protos.GetInventoryResponse{}\<close>, of the type
    \<open>'m\<close> of decoded messages;
  \<^item> \<open>time.Now().Unix()\<close>, an \<open>int64\<close> read from the outside state;
  \<^item> \<open>rpc.NewClient()\<close> and the status classifier \<open>GetErrorFromStatus\<close>, which belong to
    this repository's other files.
\<close>

record ('w, 'm) extern =
  LatLngFromDegrees :: "float64 \<Rightarrow> float64 \<Rightarrow> float64 \<times> float64"
  CellIDFromLatLng :: "float64 \<times> float64 \<Rightarrow> 64 word"
  Parent :: "64 word \<Rightarrow> nat \<Rightarrow> 64 word"
  EdgeNeighbors :: "64 word \<Rightarrow> 64 word \<times> 64 word \<times> 64 word \<times> 64 word"
  Marshal :: "Message \<Rightarrow> bytes \<times> error option"
  Unmarshal :: "bytes \<Rightarrow> 'm \<Rightarrow> 'm \<times> error option"
  GetMapObjectsResponse :: 'm
  GetPlayerResponse :: 'm
  GetInventoryResponse :: 'm
  NowUnix :: "'w \<Rightarrow> 64 word"
  NewClient :: "'w Client"
  GetErrorFromStatus :: "32 word \<Rightarrow> error option"

text \<open>
  What \<open>log.Println\<close> prints in debug mode: the text form of an envelope, recorded as the
  envelope itself.
\<close>

datatype log_entry = LogRequest RequestEnvelope | LogResponse "ResponseEnvelope option"

text \<open>
  The running program: the session object, the outside state, and two observation logs,
  the round trips made through the transport (URL and envelope, oldest first) and the
  lines written to the log.
\<close>

record 'w machine =
  sess :: "'w Session"
  world :: 'w
  rpc_calls :: "(string \<times> RequestEnvelope) list"
  log_output :: "log_entry list"

section \<open>Operations\<close>

definition defaultURL :: string where
  "defaultURL = ''https://pgorelease.nianticlabs.com/plfe/rpc''"

definition downloadSettingsHash :: string where
  "downloadSettingsHash = ''05daf51635c82611d1aac95c0b051d3ec088a930''"

definition cellIDLevel :: nat where
  "cellIDLevel = 15"

definition generateRequests :: "Request list" where
  "generateRequests = []"

text \<open>Ranging over a \<open>[4]CellID\<close> visits its four elements in index order.\<close>

fun array4 :: "'a \<times> 'a \<times> 'a \<times> 'a \<Rightarrow> 'a list" where
  "array4 (a, b, c, d) = [a, b, c, d]"

definition getCellIDs :: "('w, 'm) extern \<Rightarrow> Location option \<Rightarrow> 64 word list outcome" where
  "getCellIDs x loc =
     (case loc of
        None \<Rightarrow> Panic NilPointerDereference
      | Some l \<Rightarrow>
          let origin = Parent x (CellIDFromLatLng x (LatLngFromDegrees x (Lat l) (Lon l))) cellIDLevel;
              cellIDs = [] @ [origin]
          in Return (foldl (\<lambda>acc cellID. acc @ [cellID]) cellIDs (array4 (EdgeNeighbors x origin))))"

definition NewSession ::
  "('w, 'm) extern \<Rightarrow> 'w Provider option \<Rightarrow> Location option \<Rightarrow> bool \<Rightarrow> 'w Session" where
  "NewSession x prov loc dbg =
     \<lparr>location = loc, url = [], rpc = NewClient x, provider = prov, debug = dbg\<rparr>"

text \<open>\<open>fmt.Sprintf("https://%s/rpc", urlToken)\<close> puts the token between the two literals.\<close>

definition setURL :: "'w machine \<Rightarrow> string \<Rightarrow> 'w machine" where
  "setURL m urlToken = m\<lparr>sess := (sess m)\<lparr>url := ''https://'' @ urlToken @ ''/rpc''\<rparr>\<rparr>"

definition getURL :: "'w Session \<Rightarrow> string" where
  "getURL s = (if url s \<noteq> [] then url s else defaultURL)"

definition logIf :: "log_entry \<Rightarrow> 'w machine \<Rightarrow> 'w machine" where
  "logIf e m = (if debug (sess m) then m\<lparr>log_output := log_output m @ [e]\<rparr> else m)"

definition Call ::
  "'w machine \<Rightarrow> Request list \<Rightarrow> (ResponseEnvelope option \<times> error option) outcome \<times> 'w machine" where
  "Call m requests =
     (case provider (sess m) of
        None \<Rightarrow> (Panic NilPointerDereference, m)
      | Some p \<Rightarrow>
          let (providerString, w1) = GetProviderString p (world m);
              (accessToken, w2) = GetAccessToken p w1;
              auth = \<lparr>Provider = providerString,
                      Token = \<lparr>Contents = accessToken, Unknown2 = 59\<rparr>\<rparr>;
              m1 = m\<lparr>world := w2\<rparr>
          in (case location (sess m1) of
                None \<Rightarrow> (Panic NilPointerDereference, m1)
              | Some l \<Rightarrow>
                  let requestEnvelope =
                        \<lparr>RequestId = 8145806132888207460, StatusCode = 2, Unknown12 = 989,
                         Longitude = Lon l, Latitude = Lat l, Altitude = Alt l,
                         AuthInfo = auth, Requests = requests\<rparr>;
                      m2 = logIf (LogRequest requestEnvelope) m1;
                      ((responseEnvelope, err), w3) =
                        Request (rpc (sess m2)) (getURL (sess m2)) requestEnvelope (world m2);
                      m3 = m2\<lparr>world := w3,
                               rpc_calls := rpc_calls m2 @ [(getURL (sess m2), requestEnvelope)]\<rparr>;
                      m4 = logIf (LogResponse responseEnvelope) m3
                  in (Return (responseEnvelope, err), m4)))"

text \<open>The batch that \<open>Init\<close> builds (\<open>proto.Marshal\<close>'s error is dropped).\<close>

definition InitRequests :: "('w, 'm) extern \<Rightarrow> Request list" where
  "InitRequests x =
     (let requests = generateRequests;
          requests = requests @ [\<lparr>RequestType = GET_PLAYER, RequestMessage = []\<rparr>];
          requests = requests @ [\<lparr>RequestType = GET_HATCHED_EGGS, RequestMessage = []\<rparr>];
          requests = requests @ [\<lparr>RequestType = GET_INVENTORY, RequestMessage = []\<rparr>];
          requests = requests @ [\<lparr>RequestType = CHECK_AWARDED_BADGES, RequestMessage = []\<rparr>];
          settingsMessage = fst (Marshal x (DownloadSettingsMessage downloadSettingsHash));
          requests = requests @ [\<lparr>RequestType = DOWNLOAD_SETTINGS, RequestMessage = settingsMessage\<rparr>]
      in requests)"

definition Init :: "('w, 'm) extern \<Rightarrow> 'w machine \<Rightarrow> error option outcome \<times> 'w machine" where
  "Init x m =
     (case provider (sess m) of
        None \<Rightarrow> (Panic NilPointerDereference, m)
      | Some p \<Rightarrow>
          let ((token, err), w1) = Login p (world m);
              m1 = m\<lparr>world := w1\<rparr>
          in (case err of
                Some e \<Rightarrow> (Return (Some e), m1)
              | None \<Rightarrow>
                  (case Call m1 (InitRequests x) of
                     (Panic pn, m2) \<Rightarrow> (Panic pn, m2)
                   | (Return (response, err), m2) \<Rightarrow>
                       (case err of
                          Some e \<Rightarrow> (Return (Some e), m2)
                        | None \<Rightarrow>
                            (case response of
                               None \<Rightarrow> (Panic NilPointerDereference, m2)
                             | Some r \<Rightarrow>
                                 if ApiUrl r = []
                                 then (Return (Some (Errorf
                                   ''Could not initialize session, the service might be down'')), m2)
                                 else (Return None, setURL m2 (ApiUrl r)))))))"

text \<open>
  The batch that \<open>Announce\<close> builds from the cell ids, the location and
  \<open>lastTimestamp\<close>. \<open>make([]int64, len(cellIDs))\<close> is a zero-filled slice.
\<close>

definition AnnounceRequests ::
  "('w, 'm) extern \<Rightarrow> 64 word list \<Rightarrow> Location \<Rightarrow> 64 word \<Rightarrow> Request list" where
  "AnnounceRequests x cellIDs l lastTimestamp =
     (let requests = generateRequests;
          getMapObjectsMessage = fst (Marshal x
            (GetMapObjectsMessage cellIDs (replicate (length cellIDs) 0) (Lon l) (Lat l)));
          requests = requests @ [\<lparr>RequestType = GET_MAP_OBJECTS, RequestMessage = getMapObjectsMessage\<rparr>];
          requests = requests @ [\<lparr>RequestType = GET_HATCHED_EGGS, RequestMessage = []\<rparr>];
          getInventoryMessage = fst (Marshal x (GetInventoryMessage lastTimestamp));
          requests = requests @ [\<lparr>RequestType = GET_INVENTORY, RequestMessage = getInventoryMessage\<rparr>];
          requests = requests @ [\<lparr>RequestType = CHECK_AWARDED_BADGES, RequestMessage = []\<rparr>];
          settingsMessage = fst (Marshal x (DownloadSettingsMessage downloadSettingsHash));
          requests = requests @ [\<lparr>RequestType = DOWNLOAD_SETTINGS, RequestMessage = settingsMessage\<rparr>]
      in requests)"

text \<open>
  \<open>Announce\<close> returns \<open>(mapObjects, err)\<close>; \<open>mapObjects\<close> is a pointer, \<open>nil\<close> until it is
  assigned. \<open>time.Now().Unix() * 1000\<close> is an \<open>int64\<close> product.
\<close>

definition Announce ::
  "('w, 'm) extern \<Rightarrow> 'w machine \<Rightarrow> ('m option \<times> error option) outcome \<times> 'w machine" where
  "Announce x m =
     (case getCellIDs x (location (sess m)) of
        Panic pn \<Rightarrow> (Panic pn, m)
      | Return cellIDs \<Rightarrow>
          let lastTimestamp = NowUnix x (world m) * 1000
          in (case location (sess m) of
                None \<Rightarrow> (Panic NilPointerDereference, m)
              | Some l \<Rightarrow>
                  (case Call m (AnnounceRequests x cellIDs l lastTimestamp) of
                     (Panic pn, m1) \<Rightarrow> (Panic pn, m1)
                   | (Return (response, err), m1) \<Rightarrow>
                       (case err of
                          Some e \<Rightarrow> (Return (None, Some RequestError), m1)
                        | None \<Rightarrow>
                            (case response of
                               None \<Rightarrow> (Panic NilPointerDereference, m1)
                             | Some r \<Rightarrow>
                                 (case Returns r of
                                    [] \<Rightarrow> (Panic IndexOutOfRange, m1)
                                  | b # bs \<Rightarrow>
                                      let (mapObjects, decodeErr) = Unmarshal x b (GetMapObjectsResponse x)
                                      in (Return (Some mapObjects,
                                                  GetErrorFromStatus x (RespStatusCode r)), m1)))))))"

definition GetPlayer ::
  "('w, 'm) extern \<Rightarrow> 'w machine \<Rightarrow> ('m option \<times> error option) outcome \<times> 'w machine" where
  "GetPlayer x m =
     (let requests = generateRequests;
          requests = requests @ [\<lparr>RequestType = GET_PLAYER, RequestMessage = []\<rparr>]
      in (case Call m requests of
            (Panic pn, m1) \<Rightarrow> (Panic pn, m1)
          | (Return (response, err), m1) \<Rightarrow>
              (case err of
                 Some e \<Rightarrow> (Return (None, Some e), m1)
               | None \<Rightarrow>
                   (case response of
                      None \<Rightarrow> (Panic NilPointerDereference, m1)
                    | Some r \<Rightarrow>
                        (case Returns r of
                           [] \<Rightarrow> (Panic IndexOutOfRange, m1)
                         | b # bs \<Rightarrow>
                             let (player, decodeErr) = Unmarshal x b (GetPlayerResponse x)
                             in (Return (Some player, None), m1))))))"

definition GetInventory ::
  "('w, 'm) extern \<Rightarrow> 'w machine \<Rightarrow> ('m option \<times> error option) outcome \<times> 'w machine" where
  "GetInventory x m =
     (let requests = generateRequests;
          requests = requests @ [\<lparr>RequestType = GET_INVENTORY, RequestMessage = []\<rparr>]
      in (case Call m requests of
            (Panic pn, m1) \<Rightarrow> (Panic pn, m1)
          | (Return (response, err), m1) \<Rightarrow>
              (case err of
                 Some e \<Rightarrow> (Return (None, Some e), m1)
               | None \<Rightarrow>
                   (case response of
                      None \<Rightarrow> (Panic NilPointerDereference, m1)
                    | Some r \<Rightarrow>
                        (case Returns r of
                           [] \<Rightarrow> (Panic IndexOutOfRange, m1)
                         | b # bs \<Rightarrow>
                             let (inventory, decodeErr) = Unmarshal x b (GetInventoryResponse x)
                             in (Return (Some inventory, None), m1))))))"

section \<open>Concrete collaborators\<close>

text \<open>
  Stand-ins for the collaborators, with the collaborators' types, so that the operations
  can be run at concrete inputs. The outside state is a counter of the calls made to
  \<open>Login\<close> and to the transport; a decoded message is the payload itself, and a payload
  whose first byte is \<open>0xFF\<close> does not decode. The geometry stand-in numbers the four
  neighbours of a cell after the cell.
\<close>

definition stubProvider :: "error option \<Rightarrow> nat Provider" where
  "stubProvider loginErr =
     \<lparr>Login = (\<lambda>w. ((''jwt'', loginErr), w + 1)),
      GetProviderString = (\<lambda>w. (''ptc'', w)),
      GetAccessToken = (\<lambda>w. (''jwt'', w))\<rparr>"

definition stubClient :: "ResponseEnvelope option \<times> error option \<Rightarrow> nat Client" where
  "stubClient a = \<lparr>Request = (\<lambda>u env w. (a, w + 1))\<rparr>"

definition stubExtern :: "(nat, bytes) extern" where
  "stubExtern =
     \<lparr>LatLngFromDegrees = (\<lambda>lat lng. (lat, lng)),
      CellIDFromLatLng = (\<lambda>(lat, lng). lat + lng),
      Parent = (\<lambda>c level. c),
      EdgeNeighbors = (\<lambda>c. (c + 1, c + 2, c + 3, c + 4)),
      Marshal = (\<lambda>msg. case msg of
                   GetMapObjectsMessage ids ts lon lat \<Rightarrow> ([1], None)
                 | GetInventoryMessage ts \<Rightarrow> ([2], None)
                 | DownloadSettingsMessage h \<Rightarrow> ([3], None)),
      Unmarshal = (\<lambda>b pb. case b of
                     [] \<Rightarrow> (pb, None)
                   | c # cs \<Rightarrow> if c = 255 then (pb, Some (ExternalError ''proto: bad wire type''))
                               else (b, None)),
      GetMapObjectsResponse = [],
      GetPlayerResponse = [],
      GetInventoryResponse = [],
      NowUnix = (\<lambda>w. 1469000000),
      NewClient = stubClient (None, Some (ExternalError ''no route to host'')),
      GetErrorFromStatus = (\<lambda>c. if c = 1 then None else Some (ExternalError ''status''))\<rparr>"

text \<open>
  A machine whose session was made by \<open>NewSession\<close> at the coordinate with bit patterns
  \<open>1, 2, 3\<close>, whose provider's \<open>Login\<close> returns \<open>loginErr\<close> and whose transport answers
  every request with \<open>a\<close>.
\<close>

definition stubMachine ::
  "error option \<Rightarrow> ResponseEnvelope option \<times> error option \<Rightarrow> nat machine" where
  "stubMachine loginErr a =
     \<lparr>sess = (NewSession stubExtern (Some (stubProvider loginErr))
                (Some \<lparr>Lon = 1, Lat = 2, Alt = 3\<rparr>) False)\<lparr>rpc := stubClient a\<rparr>,
      world = 0, rpc_calls = [], log_output = []\<rparr>"

section \<open>Auxiliary notions\<close>

text \<open>The cell that \<open>getCellIDs\<close> calls \<open>origin\<close>.\<close>

definition originCell :: "('w, 'm) extern \<Rightarrow> Location \<Rightarrow> 64 word" where
  "originCell x l = Parent x (CellIDFromLatLng x (LatLngFromDegrees x (Lat l) (Lon l))) cellIDLevel"

text \<open>
  What \<open>Announce\<close>, \<open>GetPlayer\<close> and \<open>GetInventory\<close> do with the result of their call:
  \<open>dec\<close> is the decoder of the expected message, \<open>status\<close> the error reported on success
  and \<open>onErr\<close> the error reported for a transport error.
\<close>

definition decodeFirst ::
  "(bytes \<Rightarrow> 'm \<times> error option) \<Rightarrow> (ResponseEnvelope \<Rightarrow> error option) \<Rightarrow> (error \<Rightarrow> error)
     \<Rightarrow> (ResponseEnvelope option \<times> error option) outcome \<Rightarrow> ('m option \<times> error option) outcome" where
  "decodeFirst dec status onErr c =
     (case c of
        Panic pn \<Rightarrow> Panic pn
      | Return (response, err) \<Rightarrow>
          (case err of
             Some e \<Rightarrow> Return (None, Some (onErr e))
           | None \<Rightarrow>
               (case response of
                  None \<Rightarrow> Panic NilPointerDereference
                | Some r \<Rightarrow>
                    (case Returns r of
                       [] \<Rightarrow> Panic IndexOutOfRange
                     | b # bs \<Rightarrow> Return (Some (fst (dec b)), status r)))))"

text \<open>The batch \<open>Announce\<close> sends from machine \<open>m\<close> when the session's location is \<open>l\<close>.\<close>

definition announceBatch :: "('w, 'm) extern \<Rightarrow> 'w machine \<Rightarrow> Location \<Rightarrow> Request list" where
  "announceBatch x m l =
     AnnounceRequests x (originCell x l # array4 (EdgeNeighbors x (originCell x l))) l
       (NowUnix x (world m) * 1000)"

section \<open>Facts about the operations\<close>

subsection \<open>The call\<close>


lemma Call_sess: "sess (snd (Call m reqs)) = sess m"
  by (simp add: Call_def logIf_def split_def Let_def split: option.splits)

lemma Call_rpc_calls:
  assumes "provider (sess m) = Some p" and "location (sess m) = Some l"
  shows "rpc_calls (snd (Call m reqs)) = rpc_calls m @
     [(getURL (sess m),
       \<lparr>RequestId = 8145806132888207460, StatusCode = 2, Unknown12 = 989,
        Longitude = Lon l, Latitude = Lat l, Altitude = Alt l,
        AuthInfo = \<lparr>Provider = fst (GetProviderString p (world m)),
                    Token = \<lparr>Contents = fst (GetAccessToken p (snd (GetProviderString p (world m)))),
                             Unknown2 = 59\<rparr>\<rparr>,
        Requests = reqs\<rparr>)]"
  using assms by (simp add: Call_def logIf_def split_def Let_def)

subsection \<open>The operations in terms of their call\<close>

lemma getCellIDs_Some:
  "getCellIDs x (Some l) = Return (originCell x l # array4 (EdgeNeighbors x (originCell x l)))"
  by (cases "EdgeNeighbors x (originCell x l)")
     (simp add: getCellIDs_def Let_def originCell_def)

lemma GetPlayer_eq:
  "GetPlayer x m =
     (decodeFirst (\<lambda>b. Unmarshal x b (GetPlayerResponse x)) (\<lambda>r. None) (\<lambda>e. e)
        (fst (Call m [\<lparr>RequestType = GET_PLAYER, RequestMessage = []\<rparr>])),
      snd (Call m [\<lparr>RequestType = GET_PLAYER, RequestMessage = []\<rparr>]))"
  by (simp add: GetPlayer_def decodeFirst_def generateRequests_def Let_def split_def
      split: prod.splits outcome.splits option.splits list.splits)

lemma GetInventory_eq:
  "GetInventory x m =
     (decodeFirst (\<lambda>b. Unmarshal x b (GetInventoryResponse x)) (\<lambda>r. None) (\<lambda>e. e)
        (fst (Call m [\<lparr>RequestType = GET_INVENTORY, RequestMessage = []\<rparr>])),
      snd (Call m [\<lparr>RequestType = GET_INVENTORY, RequestMessage = []\<rparr>]))"
  by (simp add: GetInventory_def decodeFirst_def generateRequests_def Let_def split_def
      split: prod.splits outcome.splits option.splits list.splits)

lemma Announce_eq:
  assumes "location (sess m) = Some l"
  shows "Announce x m =
     (decodeFirst (\<lambda>b. Unmarshal x b (GetMapObjectsResponse x))
        (\<lambda>r. GetErrorFromStatus x (RespStatusCode r)) (\<lambda>e. RequestError)
        (fst (Call m (announceBatch x m l))),
      snd (Call m (announceBatch x m l)))"
  using assms
  by (simp add: Announce_def decodeFirst_def announceBatch_def getCellIDs_Some Let_def split_def
      split: prod.splits outcome.splits option.splits list.splits)

lemma Announce_nil:
  "location (sess m) = None \<Longrightarrow> Announce x m = (Panic NilPointerDereference, m)"
  by (simp add: Announce_def getCellIDs_def)

lemma Init_login_failed:
  assumes "provider (sess m) = Some p" and "Login p (world m) = ((tok, Some e), w')"
  shows "Init x m = (Return (Some e), m\<lparr>world := w'\<rparr>)"
  using assms by (simp add: Init_def)

lemma Init_eq:
  assumes "provider (sess m) = Some p" and "snd (fst (Login p (world m))) = None"
  shows "Init x m =
     (let c = Call (m\<lparr>world := snd (Login p (world m))\<rparr>) (InitRequests x) in
      case fst c of
        Panic pn \<Rightarrow> (Panic pn, snd c)
      | Return (response, err) \<Rightarrow>
          (case err of
             Some e \<Rightarrow> (Return (Some e), snd c)
           | None \<Rightarrow>
               (case response of
                  None \<Rightarrow> (Panic NilPointerDereference, snd c)
                | Some r \<Rightarrow>
                    if ApiUrl r = []
                    then (Return (Some (Errorf
                      ''Could not initialize session, the service might be down'')), snd c)
                    else (Return None, setURL (snd c) (ApiUrl r)))))"
  using assms
  by (simp add: Init_def Let_def split_def
      split: prod.splits outcome.splits option.splits list.splits)

subsection \<open>What each operation does to the session object\<close>

lemma GetPlayer_sess: "sess (snd (GetPlayer x m)) = sess m"
  by (simp add: GetPlayer_eq Call_sess)

lemma GetInventory_sess: "sess (snd (GetInventory x m)) = sess m"
  by (simp add: GetInventory_eq Call_sess)

lemma Announce_sess: "sess (snd (Announce x m)) = sess m"
  by (cases "location (sess m)") (simp_all add: Announce_nil Announce_eq Call_sess)

lemma Init_frame:
  "\<exists>u. sess (snd (Init x m))
         = (if fst (Init x m) = Return None then (sess m)\<lparr>url := u\<rparr> else sess m)"
proof (cases "provider (sess m)")
  case None
  then show ?thesis by (simp add: Init_def)
next
  case (Some p)
  obtain tok err w' where l: "Login p (world m) = ((tok, err), w')"
    by (metis prod.exhaust)
  show ?thesis
  proof (cases err)
    case (Some e)
    with l \<open>provider (sess m) = Some p\<close> show ?thesis
      by (simp add: Init_login_failed)
  next
    case None
    with l have "snd (fst (Login p (world m))) = None" by simp
    then show ?thesis
      by (auto simp add: Init_eq [OF \<open>provider (sess m) = Some p\<close>] Let_def Call_sess setURL_def
          split: outcome.splits option.splits prod.splits)
  qed
qed

subsection \<open>The concrete collaborators\<close>

lemma stub_sess:
  "provider (sess (stubMachine le a)) = Some (stubProvider le)"
  "location (sess (stubMachine le a)) = Some \<lparr>Lon = 1, Lat = 2, Alt = 3\<rparr>"
  "rpc (sess (stubMachine le a)) = stubClient a"
  "url (sess (stubMachine le a)) = []"
  "debug (sess (stubMachine le a)) = False"
  by (simp_all add: stubMachine_def NewSession_def)


lemma stub_login: "Login (stubProvider le) w = ((''jwt'', le), w + 1)"
  by (simp add: stubProvider_def)

section \<open>The cell indexer\<close>



section \<open>Transport failure\<close>



section \<open>Endpoint binding\<close>





text \<open>
  C5: when the provider's \<open>Login\<close> returns an error, \<open>Init\<close> returns that error, and the
  machine after \<open>Init\<close> is the machine after \<open>Login\<close>: nothing was sent through the
  transport, so the record of round trips is the one before.
\<close>

theorem Init_login_failure:
  assumes "provider (sess m) = Some p" and "Login p (world m) = ((token, Some e), w')"
  shows "fst (Init x m) = Return (Some e)
       \<and> snd (Init x m) = m\<lparr>world := w'\<rparr>
       \<and> rpc_calls (snd (Init x m)) = rpc_calls m"
  using assms by (simp add: Init_def)

text \<open>The same for a provider that rejects the credentials.\<close>

theorem Init_login_failure_witness:
  "fst (Init stubExtern (stubMachine (Some (ExternalError ''bad credentials''))
          (Some \<lparr>RespStatusCode = 1, ApiUrl = ''abc123'', Returns = []\<rparr>, None)))
     = Return (Some (ExternalError ''bad credentials''))
   \<and> rpc_calls (snd (Init stubExtern (stubMachine (Some (ExternalError ''bad credentials''))
          (Some \<lparr>RespStatusCode = 1, ApiUrl = ''abc123'', Returns = []\<rparr>, None)))) = []"
proof -
  let ?m = "stubMachine (Some (ExternalError ''bad credentials''))
              (Some \<lparr>RespStatusCode = 1, ApiUrl = ''abc123'', Returns = []\<rparr>, None)"
  have h1: "provider (sess ?m) = Some (stubProvider (Some (ExternalError ''bad credentials'')))"
    by (simp add: stub_sess)
  have h2: "Login (stubProvider (Some (ExternalError ''bad credentials''))) (world ?m)
              = ((''jwt'', Some (ExternalError ''bad credentials'')), 1)"
    by (simp add: stub_login stubMachine_def)
  show ?thesis
    using Init_login_failure [OF h1 h2, of stubExtern] by (simp add: stubMachine_def)
qed

section \<open>Request batches and envelopes\<close>

text \<open>
  C6: whatever the cell ids, the coordinate and the timestamp, the batch that \<open>Announce\<close>
  builds has exactly five sub-requests, of the types map-objects, hatched-eggs, inventory,
  badges, settings, in this order; and with a provider and a location, \<open>Announce\<close> makes
  one round trip, whose envelope carries a batch of these five types.
\<close>

theorem AnnounceRequests_order:
  assumes "provider (sess m) = Some p" and "location (sess m) = Some l"
  shows "map RequestType (AnnounceRequests x cellIDs l' lastTimestamp)
           = [GET_MAP_OBJECTS, GET_HATCHED_EGGS, GET_INVENTORY, CHECK_AWARDED_BADGES,
              DOWNLOAD_SETTINGS]
       \<and> (\<exists>u env. rpc_calls (snd (Announce x m)) = rpc_calls m @ [(u, env)]
             \<and> map RequestType (Requests env)
                 = [GET_MAP_OBJECTS, GET_HATCHED_EGGS, GET_INVENTORY, CHECK_AWARDED_BADGES,
                    DOWNLOAD_SETTINGS])"
proof -
  have b: "map RequestType (AnnounceRequests x c k t)
             = [GET_MAP_OBJECTS, GET_HATCHED_EGGS, GET_INVENTORY, CHECK_AWARDED_BADGES,
                DOWNLOAD_SETTINGS]" for c k t
    by (simp add: AnnounceRequests_def generateRequests_def Let_def)
  have "snd (Announce x m) = snd (Call m (announceBatch x m l))"
    by (simp add: Announce_eq [OF assms(2)])
  then show ?thesis
    by (simp add: b Call_rpc_calls [OF assms] announceBatch_def)
qed

text \<open>The round trips of one \<open>Announce\<close> from a fresh session.\<close>

theorem AnnounceRequests_order_witness:
  "map (\<lambda>c. map RequestType (Requests (snd c)))
     (rpc_calls (snd (Announce stubExtern
        (stubMachine None (Some \<lparr>RespStatusCode = 1, ApiUrl = [], Returns = [[8]]\<rparr>, None)))))
   = [[GET_MAP_OBJECTS, GET_HATCHED_EGGS, GET_INVENTORY, CHECK_AWARDED_BADGES, DOWNLOAD_SETTINGS]]"
proof -
  let ?m = "stubMachine None (Some \<lparr>RespStatusCode = 1, ApiUrl = [], Returns = [[8]]\<rparr>, None)"
  have h1: "provider (sess ?m) = Some (stubProvider None)"
    and h2: "location (sess ?m) = Some \<lparr>Lon = 1, Lat = 2, Alt = 3\<rparr>"
    by (simp_all add: stub_sess)
  have e: "rpc_calls ?m = []" by (simp add: stubMachine_def)
  from AnnounceRequests_order [OF h1 h2, of stubExtern, THEN conjunct2] obtain u env
    where "rpc_calls (snd (Announce stubExtern ?m)) = rpc_calls ?m @ [(u, env)]"
      and "map RequestType (Requests env)
             = [GET_MAP_OBJECTS, GET_HATCHED_EGGS, GET_INVENTORY, CHECK_AWARDED_BADGES,
                DOWNLOAD_SETTINGS]"
    by auto
  with e show ?thesis by simp
qed



section \<open>The session object across the operations\<close>

text \<open>
  C8: \<open>Announce\<close>, \<open>GetPlayer\<close> and \<open>GetInventory\<close> leave the session object as it was,
  whatever they return. \<open>Init\<close> leaves it as it was unless it returns no error, and in
  every case leaves the location, the provider, the transport client and the debug flag
  as they were: only the endpoint can change, and only when \<open>Init\<close> succeeds.
\<close>

theorem endpoint_written_only_by_Init:
  "sess (snd (Announce x m)) = sess m
   \<and> sess (snd (GetPlayer x m)) = sess m
   \<and> sess (snd (GetInventory x m)) = sess m
   \<and> (fst (Init x m) \<noteq> Return None \<longrightarrow> sess (snd (Init x m)) = sess m)
   \<and> location (sess (snd (Init x m))) = location (sess m)
   \<and> provider (sess (snd (Init x m))) = provider (sess m)
   \<and> rpc (sess (snd (Init x m))) = rpc (sess m)
   \<and> debug (sess (snd (Init x m))) = debug (sess m)"
proof -
  obtain u where "sess (snd (Init x m))
      = (if fst (Init x m) = Return None then (sess m)\<lparr>url := u\<rparr> else sess m)"
    using Init_frame by blast
  then show ?thesis
    by (simp add: Announce_sess GetPlayer_sess GetInventory_sess)
qed

text \<open>An \<open>Init\<close> that fails for want of an assigned endpoint, and the session after it.\<close>

theorem endpoint_written_only_by_Init_witness:
  "fst (Init stubExtern (stubMachine None (Some \<lparr>RespStatusCode = 1, ApiUrl = [], Returns = []\<rparr>, None)))
     \<noteq> Return None
   \<and> sess (snd (Init stubExtern
        (stubMachine None (Some \<lparr>RespStatusCode = 1, ApiUrl = [], Returns = []\<rparr>, None))))
     = sess (stubMachine None (Some \<lparr>RespStatusCode = 1, ApiUrl = [], Returns = []\<rparr>, None))"
proof -
  let ?m = "stubMachine None (Some \<lparr>RespStatusCode = 1, ApiUrl = [], Returns = []\<rparr>, None)"
  have h: "fst (Init stubExtern ?m) \<noteq> Return None"
    by (simp add: Init_def Call_def logIf_def stubMachine_def NewSession_def stubProvider_def
        stubClient_def Let_def)
  with endpoint_written_only_by_Init [of stubExtern ?m] show ?thesis
    by blast
qed

section \<open>Decoding the first result\<close>





end
